theory Spec2Isabelle
  imports Complex_Main
begin

section \<open>JSON values as the Python program holds them\<close>

text \<open>
  The admin page (\<^verbatim>\<open>admin_streamlit/app.py\<close>) works on the values that
  \<^verbatim>\<open>json.loads\<close> and \<^verbatim>\<open>Response.json()\<close> return: \<^verbatim>\<open>None\<close>, \<^verbatim>\<open>bool\<close>,
  \<^verbatim>\<open>int\<close>, \<^verbatim>\<open>float\<close>, \<^verbatim>\<open>str\<close>, \<^verbatim>\<open>list\<close> and \<^verbatim>\<open>dict\<close>.
  A Python float is a finite number, an infinity or NaN; only its value is modelled, not
  its rounding. A \<^verbatim>\<open>dict\<close> is an association list in insertion order; a Python dict
  never holds a key twice, so a well-formed one has distinct keys. A \<^verbatim>\<open>str\<close> inside
  a JSON value is compared, tested for emptiness and concatenated, and which characters
  it holds never matters; it is held as a \<open>string\<close>. The text of the argument editor,
  which \<^verbatim>\<open>strip()\<close> inspects character by character, is a list of Unicode code
  points.
\<close>

type_synonym pystr = "nat list"

datatype pyfloat = FloatFinite rat | FloatInf bool | FloatNaN

datatype json =
    JNull
  | JBool bool
  | JInt int
  | JFloat pyfloat
  | JStr string
  | JArr "json list"
  | JObj "(string \<times> json) list"

text \<open>The exceptions the page can meet; all of them are subclasses of \<^verbatim>\<open>Exception\<close>.\<close>

datatype exn =
    RequestException string
  | HTTPError int
  | JSONDecodeError
  | AttributeError
  | TypeError
  | KeyError

text \<open>Python truth value of a JSON value (\<^verbatim>\<open>bool(x)\<close>).\<close>

fun truthy :: "json \<Rightarrow> bool" where
  "truthy JNull = False"
| "truthy (JBool b) = b"
| "truthy (JInt i) = (i \<noteq> 0)"
| "truthy (JFloat (FloatFinite q)) = (q \<noteq> 0)"
| "truthy (JFloat (FloatInf neg)) = True"
| "truthy (JFloat FloatNaN) = True"
| "truthy (JStr s) = (s \<noteq> [])"
| "truthy (JArr xs) = (xs \<noteq> [])"
| "truthy (JObj kvs) = (kvs \<noteq> [])"

text \<open>\<^verbatim>\<open>isinstance(x, dict)\<close>.\<close>

fun isinstance_dict :: "json \<Rightarrow> bool" where
  "isinstance_dict (JObj kvs) = True"
| "isinstance_dict other = False"

text \<open>
  \<^verbatim>\<open>x.get(key, default)\<close>: only a dict has the method; on every other JSON value the
  attribute lookup raises \<^verbatim>\<open>AttributeError\<close>. A key that is present yields its value,
  also when that value is \<^verbatim>\<open>None\<close>.
\<close>

fun py_get :: "json \<Rightarrow> string \<Rightarrow> json \<Rightarrow> exn + json" where
  "py_get (JObj kvs) k d = Inr (case map_of kvs k of Some v \<Rightarrow> v | None \<Rightarrow> d)"
| "py_get other k d = Inl AttributeError"

text \<open>\<^verbatim>\<open>x.items()\<close>, again a method of dicts only.\<close>

fun py_items :: "json \<Rightarrow> exn + (string \<times> json) list" where
  "py_items (JObj kvs) = Inr kvs"
| "py_items other = Inl AttributeError"

text \<open>
  \<^verbatim>\<open>d[k] = v\<close>: an existing key keeps its position and gets the new value, a new key
  goes to the end.
\<close>

fun dict_set :: "('k \<times> 'v) list \<Rightarrow> 'k \<Rightarrow> 'v \<Rightarrow> ('k \<times> 'v) list" where
  "dict_set [] k v = [(k, v)]"
| "dict_set ((k', v') # kvs) k v =
     (if k' = k then (k, v) # kvs else (k', v') # dict_set kvs k v)"

section \<open>The HTTP transport\<close>

text \<open>
  \<^verbatim>\<open>requests.post\<close> is not part of the repository. A call either raises (connection
  refused, timeout, a payload that cannot be serialised) or returns a response object.
  Of a response the page reads \<^verbatim>\<open>status_code\<close>, \<^verbatim>\<open>text\<close> (here \<open>r_text\<close>), \<^verbatim>\<open>json()\<close>, \<^verbatim>\<open>ok\<close> and
  \<^verbatim>\<open>raise_for_status()\<close>. The field \<open>r_json\<close> is what \<^verbatim>\<open>r.json()\<close> does on this
  response: it returns the decoded body or raises.
\<close>

record response =
  status_code :: int
  r_text :: string
  r_json :: "exn + json"

datatype post_result = Raises exn | Returns response

text \<open>
  \<^verbatim>\<open>Response.raise_for_status()\<close> of the requests library raises \<^verbatim>\<open>HTTPError\<close> exactly
  for a status from 400 to 599, and \<^verbatim>\<open>Response.ok\<close> is true exactly when
  \<^verbatim>\<open>raise_for_status()\<close> does not raise.
\<close>

definition raise_for_status :: "response \<Rightarrow> exn + unit" where
  "raise_for_status r =
     (if 400 \<le> status_code r \<and> status_code r < 600
      then Inl (HTTPError (status_code r)) else Inr ())"

definition ok :: "response \<Rightarrow> bool" where
  "ok r = (case raise_for_status r of Inl e \<Rightarrow> False | Inr u \<Rightarrow> True)"

section \<open>Response handling of \<^verbatim>\<open>call_mcp_tool\<close>\<close>

text \<open>
  The three branches in which \<^verbatim>\<open>call_mcp_tool\<close> ends: \<^verbatim>\<open>st.success\<close> with the body
  (line 52), \<^verbatim>\<open>st.error\<close> with the HTTP status and the body (line 55), and the
  \<^verbatim>\<open>except\<close> branch with the exception (line 58). \<open>MalformedInput\<close> is the
  \<^verbatim>\<open>st.error\<close> of the dispatch button (line 193).
\<close>

datatype outcome =
    Success json
  | ProtocolError int json
  | TransportFailure exn
  | MalformedInput exn

text \<open>Lines 37 to 40: the decoded body, or the fallback dict when \<^verbatim>\<open>r.json()\<close> raises.\<close>

definition decode_body :: "response \<Rightarrow> json" where
  "decode_body r =
     (case r_json r of
        Inr j \<Rightarrow> j
      | Inl e \<Rightarrow> JObj [(''raw_text'', JStr (r_text r)), (''status_code'', JInt (status_code r))])"

text \<open>
  Line 51: \<^verbatim>\<open>r.ok and isinstance(resp, dict) and resp.get("result")\<close>; \<^verbatim>\<open>and\<close> stops at
  the first false operand, so \<^verbatim>\<open>get\<close> is only called on a dict.
\<close>

definition is_success :: "response \<Rightarrow> json \<Rightarrow> bool" where
  "is_success r resp =
     (ok r \<and> isinstance_dict resp \<and>
      (case py_get resp ''result'' JNull of Inr v \<Rightarrow> truthy v | Inl e \<Rightarrow> False))"

text \<open>Lines 37 to 40 and 51 to 56 together: the classification of a response.\<close>

definition classify :: "response \<Rightarrow> outcome" where
  "classify r =
     (let resp = decode_body r in
      if is_success r resp then Success resp else ProtocolError (status_code r) resp)"

section \<open>Session state and environment\<close>

text \<open>
  \<^verbatim>\<open>st.session_state\<close> holds the call history (a list of dicts, newest first) and the
  tool catalog, which is whatever JSON value the last accepted \<^verbatim>\<open>tools/list\<close> answer
  carried under \<^verbatim>\<open>result.tools\<close>. The field \<open>posted\<close> is the trace of the calls
  of \<^verbatim>\<open>requests.post\<close> made so far (URL, headers, JSON body, timeout), oldest first;
  it records which requests were dispatched.
\<close>

record session =
  history :: "json list"
  tools :: json
  posted :: "(string \<times> (string \<times> string) list \<times> json \<times> nat) list"

text \<open>Lines 15 to 19: a fresh session has an empty history and an empty catalog.\<close>

definition fresh_session :: session where
  "fresh_session = \<lparr>history = [], tools = JArr [], posted = []\<rparr>"

text \<open>The two sidebar inputs (lines 12 and 13).\<close>

record sidebar =
  default_url :: string
  default_token :: string

text \<open>
  What the page takes from outside at one button press: the behaviour of
  \<^verbatim>\<open>requests.post\<close>, the value of \<^verbatim>\<open>datetime.now().timestamp()\<close> read for the
  request id, the string \<^verbatim>\<open>datetime.now(timezone.utc).isoformat()\<close> read for the
  history entry, and \<^verbatim>\<open>json.loads\<close>.
\<close>

record env =
  post :: "string \<Rightarrow> (string \<times> string) list \<Rightarrow> json \<Rightarrow> nat \<Rightarrow> post_result"
  timestamp_now :: rat
  utc_isoformat_now :: string
  json_loads :: "pystr \<Rightarrow> exn + json"

text \<open>Lines 21 to 25: the bearer header is present exactly when a token was entered.\<close>

definition headers :: "sidebar \<Rightarrow> (string \<times> string) list" where
  "headers sb =
     (if default_token sb \<noteq> []
      then dict_set [(''Content-Type'', ''application/json'')]
             ''Authorization'' (''Bearer '' @ default_token sb)
      else [(''Content-Type'', ''application/json'')])"

section \<open>Request envelopes\<close>

text \<open>Lines 29 to 34: the \<^verbatim>\<open>tools/call\<close> payload; its id is the clock reading.\<close>

definition call_payload :: "rat \<Rightarrow> json \<Rightarrow> json \<Rightarrow> json" where
  "call_payload ts tool_name args =
     JObj [(''jsonrpc'', JStr ''2.0''),
           (''id'', JFloat (FloatFinite ts)),
           (''method'', JStr ''tools/call''),
           (''params'', JObj [(''name'', tool_name), (''arguments'', args)])]"

text \<open>Line 145: the \<^verbatim>\<open>tools/list\<close> payload.\<close>

definition list_payload :: json where
  "list_payload =
     JObj [(''jsonrpc'', JStr ''2.0''), (''id'', JInt 1), (''method'', JStr ''tools/list'')]"

text \<open>Reading a key of a payload; \<open>None\<close> when the key is absent.\<close>

fun field :: "json \<Rightarrow> string \<Rightarrow> json option" where
  "field (JObj kvs) k = map_of kvs k"
| "field other k = None"

section \<open>\<^verbatim>\<open>call_mcp_tool\<close>\<close>

text \<open>Lines 42 to 48: the history entry written for a response.\<close>

definition history_entry :: "env \<Rightarrow> json \<Rightarrow> json \<Rightarrow> response \<Rightarrow> json" where
  "history_entry e tool_name payload r =
     JObj [(''time'', JStr (utc_isoformat_now e)),
           (''tool'', tool_name),
           (''request'', payload),
           (''response'', decode_body r),
           (''status_code'', JInt (status_code r))]"

text \<open>
  Lines 36 to 56, the body of the \<^verbatim>\<open>try\<close>: \<open>Inl\<close> is an exception that leaves the
  block. Changes made to the session before the exception stay.
\<close>

definition call_mcp_tool_try ::
  "sidebar \<Rightarrow> env \<Rightarrow> json \<Rightarrow> json \<Rightarrow> session \<Rightarrow> (exn + outcome) \<times> session" where
  "call_mcp_tool_try sb e tool_name payload s =
     (let s1 = s\<lparr>posted := posted s @ [(default_url sb, headers sb, payload, 60)]\<rparr> in
      case post e (default_url sb) (headers sb) payload 60 of
        Raises x \<Rightarrow> (Inl x, s1)
      | Returns r \<Rightarrow>
          (let s2 = s1\<lparr>history := history_entry e tool_name payload r # history s1\<rparr>
           in (Inr (classify r), s2)))"

text \<open>
  Lines 28 to 58: the payload is built, the \<^verbatim>\<open>try\<close> body runs, and
  \<^verbatim>\<open>except Exception\<close> turns every exception into the error message of line 58.
  The result is \<open>Inl\<close> when an exception reaches the caller.
\<close>

definition call_mcp_tool ::
  "sidebar \<Rightarrow> env \<Rightarrow> json \<Rightarrow> json \<Rightarrow> session \<Rightarrow> (exn + outcome) \<times> session" where
  "call_mcp_tool sb e tool_name args s =
     (let payload = call_payload (timestamp_now e) tool_name args in
      case call_mcp_tool_try sb e tool_name payload s of
        (Inl x, s') \<Rightarrow> (Inr (TransportFailure x), s')
      | (Inr out, s') \<Rightarrow> (Inr out, s'))"

section \<open>The \<^verbatim>\<open>tools/list\<close> button\<close>

text \<open>
  Lines 152 to 155, after the catalog was stored: \<^verbatim>\<open>len(tools)\<close> raises
  \<^verbatim>\<open>TypeError\<close> on a value without a length, and the loop calls \<^verbatim>\<open>t.get\<close> on every
  element (the characters of a string and the keys of a dict are strings, which have no
  \<^verbatim>\<open>get\<close>). The result is the number shown in the success message.
\<close>

fun show_tools :: "json \<Rightarrow> exn + nat" where
  "show_tools (JArr ts) =
     (if list_all isinstance_dict ts then Inr (length ts) else Inl AttributeError)"
| "show_tools (JStr s) = (if s = [] then Inr 0 else Inl AttributeError)"
| "show_tools (JObj kvs) = (if kvs = [] then Inr 0 else Inl AttributeError)"
| "show_tools other = Inl TypeError"

text \<open>Lines 147 to 150: everything up to the value that becomes the catalog.\<close>

definition fetch_tools :: "post_result \<Rightarrow> exn + json" where
  "fetch_tools pr =
     (case pr of
        Raises x \<Rightarrow> Inl x
      | Returns r \<Rightarrow>
          (case raise_for_status r of
             Inl x \<Rightarrow> Inl x
           | Inr u \<Rightarrow>
               (case r_json r of
                  Inl x \<Rightarrow> Inl x
                | Inr resp \<Rightarrow>
                    (case py_get resp ''result'' (JObj []) of
                       Inl x \<Rightarrow> Inl x
                     | Inr res \<Rightarrow> py_get res ''tools'' (JArr [])))))"

text \<open>
  The outcome of the button: the count of the success message (line 152) or the
  exception of the error message (line 157).
\<close>

datatype list_outcome = Listed nat | ListFailed exn

text \<open>
  Lines 144 to 158. The catalog is assigned on line 151, before the lines that display
  it; an exception raised by the display is reported, and the assignment stays. The
  history is not touched.
\<close>

definition tools_list_button :: "sidebar \<Rightarrow> env \<Rightarrow> session \<Rightarrow> list_outcome \<times> session" where
  "tools_list_button sb e s =
     (let s1 = s\<lparr>posted := posted s @ [(default_url sb, headers sb, list_payload, 20)]\<rparr> in
      case fetch_tools (post e (default_url sb) (headers sb) list_payload 20) of
        Inl x \<Rightarrow> (ListFailed x, s1)
      | Inr ts \<Rightarrow>
          (let s2 = s1\<lparr>tools := ts\<rparr> in
           case show_tools ts of
             Inl x \<Rightarrow> (ListFailed x, s2)
           | Inr n \<Rightarrow> (Listed n, s2)))"

section \<open>Default arguments from a tool's input schema\<close>

text \<open>Lines 175 to 184: the placeholder for the value of \<^verbatim>\<open>v.get("type")\<close>.\<close>

definition placeholder :: "json \<Rightarrow> json" where
  "placeholder t =
     (if t = JStr ''string'' then JStr []
      else if t = JStr ''number'' then JInt 0
      else if t = JStr ''boolean'' then JBool False
      else if t = JStr ''array'' then JArr []
      else JNull)"

text \<open>Lines 174 to 184: the loop over \<^verbatim>\<open>props.items()\<close>, filling \<^verbatim>\<open>default_args\<close>.\<close>

fun synth_loop ::
  "(string \<times> json) list \<Rightarrow> (string \<times> json) list \<Rightarrow> exn + (string \<times> json) list" where
  "synth_loop [] acc = Inr acc"
| "synth_loop ((k, v) # ps) acc =
     (case py_get v ''type'' JNull of
        Inl x \<Rightarrow> Inl x
      | Inr t \<Rightarrow> synth_loop ps (dict_set acc k (placeholder t)))"

text \<open>Lines 171 to 184 from the input schema on.\<close>

definition synthesize :: "json \<Rightarrow> exn + json" where
  "synthesize schema =
     (case py_get schema ''properties'' (JObj []) of
        Inl x \<Rightarrow> Inl x
      | Inr props \<Rightarrow>
          (case py_items props of
             Inl x \<Rightarrow> Inl x
           | Inr items \<Rightarrow>
               (case synth_loop items [] of
                  Inl x \<Rightarrow> Inl x
                | Inr d \<Rightarrow> Inr (JObj d))))"

text \<open>Lines 171 to 184 from the selected tool: \<^verbatim>\<open>tool.get("inputSchema", {})\<close> first.\<close>

definition default_args :: "json \<Rightarrow> exn + json" where
  "default_args tool =
     (case py_get tool ''inputSchema'' (JObj []) of
        Inl x \<Rightarrow> Inl x
      | Inr schema \<Rightarrow> synthesize schema)"

section \<open>The \<^verbatim>\<open>tools/call\<close> dispatch button\<close>

text \<open>
  \<^verbatim>\<open>str.isspace\<close> on a code point: the white space that \<^verbatim>\<open>str.strip()\<close> removes.
  \<^verbatim>\<open>args_text.strip()\<close> is empty, hence false, exactly when every character of the
  text is white space.
\<close>

definition is_space :: "nat \<Rightarrow> bool" where
  "is_space n =
     ((0x9 \<le> n \<and> n \<le> 0xD) \<or> (0x1C \<le> n \<and> n \<le> 0x20) \<or> n = 0x85 \<or> n = 0xA0 \<or>
      n = 0x1680 \<or> (0x2000 \<le> n \<and> n \<le> 0x200A) \<or> n = 0x2028 \<or> n = 0x2029 \<or>
      n = 0x202F \<or> n = 0x205F \<or> n = 0x3000)"

definition strip_nonempty :: "pystr \<Rightarrow> bool" where
  "strip_nonempty s = (\<not> list_all is_space s)"

text \<open>
  Lines 189 to 193, the body of the button: the editor text is parsed unless it is
  blank, in which case the arguments are the empty dict; \<^verbatim>\<open>except Exception\<close> reports
  a parse error and would also report an exception that left \<^verbatim>\<open>call_mcp_tool\<close>. The
  page reaches these lines only through \<open>tools_call_section\<close> below.
\<close>

definition dispatch_button ::
  "sidebar \<Rightarrow> env \<Rightarrow> json \<Rightarrow> pystr \<Rightarrow> session \<Rightarrow> outcome \<times> session" where
  "dispatch_button sb e selected args_text s =
     (case (if strip_nonempty args_text then json_loads e args_text else Inr (JObj [])) of
        Inl x \<Rightarrow> (MalformedInput x, s)
      | Inr parsed_args \<Rightarrow>
          (case call_mcp_tool sb e selected parsed_args s of
             (Inl x, s') \<Rightarrow> (MalformedInput x, s')
           | (Inr out, s') \<Rightarrow> (out, s')))"

text \<open>
  Python's \<^verbatim>\<open>==\<close> on JSON values. \<^verbatim>\<open>bool\<close>, \<^verbatim>\<open>int\<close> and \<^verbatim>\<open>float\<close> are compared
  by numeric value (\<^verbatim>\<open>True == 1 == 1.0\<close>) and NaN equals nothing, itself included.
  Lists are compared element by element and dicts key by key; there an element that is
  the same object as its counterpart counts as equal without being compared, which
  matters for NaN only, every NaN that the decoder returns being one object.
\<close>

definition num_value :: "json \<Rightarrow> pyfloat option" where
  "num_value x =
     (case x of
        JBool b \<Rightarrow> Some (FloatFinite (if b then 1 else 0))
      | JInt i \<Rightarrow> Some (FloatFinite (of_int i))
      | JFloat f \<Rightarrow> Some f
      | _ \<Rightarrow> None)"

definition num_eq :: "json \<Rightarrow> json \<Rightarrow> bool" where
  "num_eq x y =
     (case (num_value x, num_value y) of
        (Some u, Some v) \<Rightarrow> u = v \<and> u \<noteq> FloatNaN
      | _ \<Rightarrow> False)"

fun py_eq :: "json \<Rightarrow> json \<Rightarrow> bool"
  and py_eq_list :: "json list \<Rightarrow> json list \<Rightarrow> bool"
  and py_eq_items :: "(string \<times> json) list \<Rightarrow> (string \<times> json) list \<Rightarrow> bool"
  and py_eq_lookup :: "json \<Rightarrow> string \<Rightarrow> (string \<times> json) list \<Rightarrow> bool" where
  "py_eq JNull JNull = True"
| "py_eq (JStr a) (JStr b) = (a = b)"
| "py_eq (JArr xs) (JArr ys) = py_eq_list xs ys"
| "py_eq (JObj a) (JObj b) = (length a = length b \<and> py_eq_items a b)"
| "py_eq x y = num_eq x y"
| "py_eq_list [] [] = True"
| "py_eq_list (x # xs) (y # ys) =
     (((x = JFloat FloatNaN \<and> y = JFloat FloatNaN) \<or> py_eq x y) \<and> py_eq_list xs ys)"
| "py_eq_list xs ys = False"
| "py_eq_items [] b = True"
| "py_eq_items ((k, v) # a) b = (py_eq_lookup v k b \<and> py_eq_items a b)"
| "py_eq_lookup v k [] = False"
| "py_eq_lookup v k ((k', w) # b) =
     (if k = k' then (v = JFloat FloatNaN \<and> w = JFloat FloatNaN) \<or> py_eq v w
      else py_eq_lookup v k b)"

text \<open>
  \<^verbatim>\<open>t["name"]\<close>: \<^verbatim>\<open>KeyError\<close> on a dict without the key, \<^verbatim>\<open>TypeError\<close> on every
  JSON value that is not a dict.
\<close>

fun py_index_name :: "json \<Rightarrow> exn + json" where
  "py_index_name (JObj kvs) =
     (case map_of kvs ''name'' of Some v \<Rightarrow> Inr v | None \<Rightarrow> Inl KeyError)"
| "py_index_name other = Inl TypeError"

text \<open>
  \<^verbatim>\<open>for t in x\<close>: the elements of a list, the characters of a string, the keys of a
  dict; the other JSON values cannot be iterated.
\<close>

fun py_iter :: "json \<Rightarrow> exn + json list" where
  "py_iter (JArr ts) = Inr ts"
| "py_iter (JStr s) = Inr (map (\<lambda>c. JStr [c]) s)"
| "py_iter (JObj kvs) = Inr (map (\<lambda>(k, v). JStr k) kvs)"
| "py_iter other = Inl TypeError"

text \<open>
  Line 161, \<^verbatim>\<open>[t["name"] for t in st.session_state.tools]\<close>; the first exception
  ends the loop.
\<close>

fun names_of :: "json list \<Rightarrow> exn + json list" where
  "names_of [] = Inr []"
| "names_of (t # ts) =
     (case py_index_name t of
        Inl x \<Rightarrow> Inl x
      | Inr n \<Rightarrow> (case names_of ts of Inl x \<Rightarrow> Inl x | Inr ns \<Rightarrow> Inr (n # ns)))"

definition tool_names :: "json \<Rightarrow> exn + json list" where
  "tool_names catalog =
     (case py_iter catalog of Inl x \<Rightarrow> Inl x | Inr ts \<Rightarrow> names_of ts)"

text \<open>
  Line 163, \<^verbatim>\<open>next((t for t in st.session_state.tools if t["name"] == selected), None)\<close>:
  the first tool whose name equals the selected one.
\<close>

fun first_named :: "json list \<Rightarrow> json \<Rightarrow> exn + json option" where
  "first_named [] selected = Inr None"
| "first_named (t # ts) selected =
     (case py_index_name t of
        Inl x \<Rightarrow> Inl x
      | Inr n \<Rightarrow> if py_eq n selected then Inr (Some t) else first_named ts selected)"

definition find_tool :: "json \<Rightarrow> json \<Rightarrow> exn + json option" where
  "find_tool catalog selected =
     (case py_iter catalog of Inl x \<Rightarrow> Inl x | Inr ts \<Rightarrow> first_named ts selected)"

text \<open>
  Lines 160 to 193 in the run of the script that follows a press of the
  \<^verbatim>\<open>tools/call\<close> button, with the name chosen in the select box and the text of the
  argument editor. The select box offers the names of line 161, so the choice is one of
  them. The button exists only when the catalog is truthy (line 160), a tool with the
  chosen name was found and is truthy (line 165), and lines 166 to 186 have run; the
  exceptions of lines 161 and 173 to 184 are caught nowhere and end the run. The result
  is \<open>Inl\<close> for such an exception, \<open>Inr None\<close> when the button is not on the page, and
  \<open>Inr (Some out)\<close> with the outcome of \<open>dispatch_button\<close> otherwise.
\<close>

definition tools_call_section ::
  "sidebar \<Rightarrow> env \<Rightarrow> json \<Rightarrow> pystr \<Rightarrow> session \<Rightarrow> (exn + outcome option) \<times> session" where
  "tools_call_section sb e selected args_text s =
     (if \<not> truthy (tools s) then (Inr None, s)
      else
        (case tool_names (tools s) of
           Inl x \<Rightarrow> (Inl x, s)
         | Inr names \<Rightarrow>
             if selected \<notin> set names then (Inr None, s)
             else
               (case find_tool (tools s) selected of
                  Inl x \<Rightarrow> (Inl x, s)
                | Inr None \<Rightarrow> (Inr None, s)
                | Inr (Some tool) \<Rightarrow>
                    if \<not> truthy tool then (Inr None, s)
                    else
                      (case default_args tool of
                         Inl x \<Rightarrow> (Inl x, s)
                       | Inr d \<Rightarrow>
                           (case dispatch_button sb e selected args_text s of
                              (out, s') \<Rightarrow> (Inr (Some out), s'))))))"

section \<open>A session as a sequence of button presses\<close>

text \<open>
  Every request leaves the page through \<^verbatim>\<open>call_mcp_tool\<close> (the preset buttons and
  the dispatch button) or through the \<^verbatim>\<open>tools/list\<close> button. A press comes with the
  environment of its run of the script: the transport and the clock readings.
\<close>

datatype press = PressCall json json | PressList

fun run :: "sidebar \<Rightarrow> (env \<times> press) list \<Rightarrow> session \<Rightarrow> session" where
  "run sb [] s = s"
| "run sb ((e, PressCall tool_name args) # ps) s =
     run sb ps (snd (call_mcp_tool sb e tool_name args s))"
| "run sb ((e, PressList) # ps) s = run sb ps (snd (tools_list_button sb e s))"

text \<open>The id that the request of a press carries.\<close>

fun press_id :: "env \<times> press \<Rightarrow> json option" where
  "press_id (e, PressCall tool_name args) = Some (JFloat (FloatFinite (timestamp_now e)))"
| "press_id (e, PressList) = Some (JInt 1)"

section \<open>Sample inputs\<close>

text \<open>
  Concrete sidebars, transports and clocks on which the theorems below are run.
  \<open>codepoints\<close> turns an ASCII literal into the text of the argument editor.
  \<open>sample_loads\<close> is \<^verbatim>\<open>json.loads\<close> on the few texts used here; the empty text
  and every other text it does not list are rejected.
\<close>

definition sample_sidebar :: sidebar where
  "sample_sidebar = \<lparr>default_url = ''http://localhost:8787/mcp'', default_token = ''s3cret''\<rparr>"

definition codepoints :: "string \<Rightarrow> pystr" where
  "codepoints s = map of_char s"

definition sample_loads :: "pystr \<Rightarrow> exn + json" where
  "sample_loads s =
     (if s = codepoints ''{\"msg\": \"hi\"}'' then Inr (JObj [(''msg'', JStr ''hi'')])
      else if s = codepoints ''{}'' then Inr (JObj [])
      else Inl JSONDecodeError)"

definition sample_env :: "post_result \<Rightarrow> rat \<Rightarrow> env" where
  "sample_env pr ts =
     \<lparr>post = (\<lambda>url hs payload timeout. pr),
      timestamp_now = ts,
      utc_isoformat_now = ''2025-01-01T12:00:00+00:00'',
      json_loads = sample_loads\<rparr>"

definition refused :: post_result where
  "refused = Raises (RequestException ''Connection refused'')"

definition reply :: "int \<Rightarrow> string \<Rightarrow> exn + json \<Rightarrow> post_result" where
  "reply sc body decoded = Returns \<lparr>status_code = sc, r_text = body, r_json = decoded\<rparr>"

definition posted_ids :: "session \<Rightarrow> json option list" where
  "posted_ids s = map (\<lambda>(url, hs, payload, timeout). field payload ''id'') (posted s)"

definition echo_tool :: json where
  "echo_tool =
     JObj [(''name'', JStr ''echo''),
           (''description'', JStr ''Echo a message''),
           (''inputSchema'',
              JObj [(''type'', JStr ''object''),
                    (''properties'', JObj [(''msg'', JObj [(''type'', JStr ''string'')])])])]"

definition sample_catalog :: json where
  "sample_catalog =
     JArr [echo_tool,
           JObj [(''name'', JStr ''getSystemPrompt''), (''description'', JStr ''Read the prompt'')],
           JObj [(''name'', JStr ''listCronTriggers''), (''description'', JStr ''List triggers'')]]"

definition sample_session :: session where
  "sample_session = \<lparr>history = [], tools = sample_catalog, posted = []\<rparr>"

definition rpc_error_body :: json where
  "rpc_error_body =
     JObj [(''jsonrpc'', JStr ''2.0''), (''id'', JInt 1),
           (''error'', JObj [(''code'', JInt (- 32601)), (''message'', JStr ''Method not found'')])]"

definition rpc_error_text :: string where
  "rpc_error_text =
     ''{\"jsonrpc\": \"2.0\", \"id\": 1, \"error\": {\"code\": -32601, \"message\": \"Method not found\"}}''"

text \<open>
  The placeholder table in the words of the specification, read off a property's own
  schema object: the declared type is the value under \<^verbatim>\<open>type\<close>, if there is one.
\<close>

definition spec_placeholder :: "json \<Rightarrow> json" where
  "spec_placeholder v =
     (if field v ''type'' = Some (JStr ''string'') then JStr []
      else if field v ''type'' = Some (JStr ''number'') then JInt 0
      else if field v ''type'' = Some (JStr ''boolean'') then JBool False
      else if field v ''type'' = Some (JStr ''array'') then JArr []
      else JNull)"

definition spec_example_schema :: json where
  "spec_example_schema =
     JObj [(''properties'',
        JObj [(''a'', JObj [(''type'', JStr ''string'')]),
              (''b'', JObj [(''type'', JStr ''number'')]),
              (''c'', JObj [(''type'', JStr ''boolean'')]),
              (''d'', JObj [(''type'', JStr ''array'')]),
              (''e'', JObj [])])]"

section \<open>Basic facts\<close>

lemma not_ok_iff: "\<not> ok r \<longleftrightarrow> 400 \<le> status_code r \<and> status_code r < 600"
  by (simp add: ok_def raise_for_status_def)

lemma is_success_iff:
  "is_success r resp \<longleftrightarrow>
     ok r \<and> (\<exists>kvs v. resp = JObj kvs \<and> map_of kvs ''result'' = Some v \<and> truthy v)"
  by (cases resp) (auto simp: is_success_def split: option.splits)

lemma call_mcp_tool_Returns:
  "post e (default_url sb) (headers sb) (call_payload (timestamp_now e) tool_name args) 60 = Returns r \<Longrightarrow>
   call_mcp_tool sb e tool_name args s =
     (Inr (classify r),
      s\<lparr>posted := posted s @ [(default_url sb, headers sb, call_payload (timestamp_now e) tool_name args, 60)],
        history := history_entry e tool_name (call_payload (timestamp_now e) tool_name args) r # history s\<rparr>)"
  by (simp add: call_mcp_tool_def call_mcp_tool_try_def Let_def)

lemma call_mcp_tool_Raises:
  "post e (default_url sb) (headers sb) (call_payload (timestamp_now e) tool_name args) 60 = Raises x \<Longrightarrow>
   call_mcp_tool sb e tool_name args s =
     (Inr (TransportFailure x),
      s\<lparr>posted := posted s @ [(default_url sb, headers sb, call_payload (timestamp_now e) tool_name args, 60)]\<rparr>)"
  by (simp add: call_mcp_tool_def call_mcp_tool_try_def Let_def)

lemma posted_call_mcp_tool:
  "posted (snd (call_mcp_tool sb e tool_name args s)) =
     posted s @ [(default_url sb, headers sb, call_payload (timestamp_now e) tool_name args, 60)]"
  by (cases "post e (default_url sb) (headers sb)
               (call_payload (timestamp_now e) tool_name args) 60")
     (simp_all add: call_mcp_tool_Raises call_mcp_tool_Returns)

lemma posted_tools_list_button:
  "posted (snd (tools_list_button sb e s)) =
     posted s @ [(default_url sb, headers sb, list_payload, 20)]"
  by (simp add: tools_list_button_def Let_def split: sum.splits)

section \<open>The call history\<close>

text \<open>
  Claim C1, as amended. A \<^verbatim>\<open>tools/call\<close> dispatched through \<^verbatim>\<open>call_mcp_tool\<close>
  puts exactly one entry at the front of the history when the transport returns an HTTP
  response, whatever its status and body; when the transport raises, the history is left
  as it was.
\<close>

theorem call_mcp_tool_history:
  "(post e (default_url sb) (headers sb) (call_payload (timestamp_now e) tool_name args) 60 = Returns r \<longrightarrow>
      history (snd (call_mcp_tool sb e tool_name args s)) =
        history_entry e tool_name (call_payload (timestamp_now e) tool_name args) r # history s) \<and>
   (post e (default_url sb) (headers sb) (call_payload (timestamp_now e) tool_name args) 60 = Raises x \<longrightarrow>
      history (snd (call_mcp_tool sb e tool_name args s)) = history s)"
  by (simp add: call_mcp_tool_Returns call_mcp_tool_Raises)

text \<open>
  The theorem at a server answering 500 with a body that is not JSON (one entry, holding
  the fallback body), and at a refused connection (no entry).
\<close>

theorem call_mcp_tool_history_witness:
  "history (snd (call_mcp_tool sample_sidebar
       (sample_env (reply 500 ''Internal Server Error'' (Inl JSONDecodeError)) 1700000000)
       (JStr ''getSystemPrompt'') (JObj []) fresh_session)) =
     [JObj [(''time'', JStr ''2025-01-01T12:00:00+00:00''),
            (''tool'', JStr ''getSystemPrompt''),
            (''request'', call_payload 1700000000 (JStr ''getSystemPrompt'') (JObj [])),
            (''response'', JObj [(''raw_text'', JStr ''Internal Server Error''), (''status_code'', JInt 500)]),
            (''status_code'', JInt 500)]] \<and>
   history (snd (call_mcp_tool sample_sidebar (sample_env refused 1700000000)
       (JStr ''getSystemPrompt'') (JObj []) fresh_session)) = []"
  using call_mcp_tool_history [of "sample_env (reply 500 ''Internal Server Error'' (Inl JSONDecodeError)) 1700000000"
          sample_sidebar "JStr ''getSystemPrompt''" "JObj []"
          "\<lparr>status_code = 500, r_text = ''Internal Server Error'', r_json = Inl JSONDecodeError\<rparr>" fresh_session]
        call_mcp_tool_history [of "sample_env refused 1700000000"
          sample_sidebar "JStr ''getSystemPrompt''" "JObj []" _ fresh_session "RequestException ''Connection refused''"]
  by (simp add: sample_env_def reply_def refused_def fresh_session_def history_entry_def decode_body_def)

text \<open>
  Claim C1 as stated fails: with the connection refused, the request was handed to the
  transport and the history stays empty.
\<close>

theorem transport_failure_not_recorded:
  "posted (snd (call_mcp_tool sample_sidebar (sample_env refused 1700000000)
       (JStr ''getSystemPrompt'') (JObj []) fresh_session)) =
     [(''http://localhost:8787/mcp'',
       [(''Content-Type'', ''application/json''), (''Authorization'', ''Bearer s3cret'')],
       call_payload 1700000000 (JStr ''getSystemPrompt'') (JObj []), 60)] \<and>
   history (snd (call_mcp_tool sample_sidebar (sample_env refused 1700000000)
       (JStr ''getSystemPrompt'') (JObj []) fresh_session)) = []"
  by (simp add: call_mcp_tool_def call_mcp_tool_try_def sample_env_def refused_def
        fresh_session_def sample_sidebar_def headers_def Let_def)

section \<open>Classification of responses\<close>

text \<open>
  Claim C2, as amended. For every HTTP response with a status code from 400 to 599,
  whatever its body, the classification is ProtocolError with that status and the
  decoded (or fallback) body.
\<close>

theorem error_status_is_protocol_error:
  "400 \<le> status_code r \<Longrightarrow> status_code r < 600 \<Longrightarrow>
   classify r = ProtocolError (status_code r) (decode_body r)"
proof -
  assume "400 \<le> status_code r" and "status_code r < 600"
  then have "\<not> ok r"
    by (simp add: not_ok_iff)
  then show ?thesis
    by (simp add: classify_def Let_def is_success_iff)
qed

text \<open>The theorem at a 503 answer whose body is an object with a truthy result.\<close>

theorem error_status_is_protocol_error_witness:
  "(400::int) \<le> 503 \<and> (503::int) < 600 \<and>
   classify \<lparr>status_code = 503, r_text = ''{\"result\": \"x\"}'',
             r_json = Inr (JObj [(''result'', JStr ''x'')])\<rparr> =
     ProtocolError 503 (JObj [(''result'', JStr ''x'')])"
  using error_status_is_protocol_error
          [of "\<lparr>status_code = 503, r_text = ''{\"result\": \"x\"}'',
                r_json = Inr (JObj [(''result'', JStr ''x'')])\<rparr>"]
  by (simp add: decode_body_def)

text \<open>
  Claim C2 as stated fails: \<^verbatim>\<open>r.ok\<close> is true for every status below 400, so a
  response with status 300 and a truthy result is a Success.
\<close>

theorem status_300_is_success:
  "classify \<lparr>status_code = 300, r_text = ''{\"result\": \"x\"}'',
             r_json = Inr (JObj [(''result'', JStr ''x'')])\<rparr> =
     Success (JObj [(''result'', JStr ''x'')])"
  by (simp add: classify_def decode_body_def is_success_def ok_def raise_for_status_def)

text \<open>
  Claim C5. For every response with a status from 200 to 299 whose body, as the page
  holds it, is not an object with a truthy \<^verbatim>\<open>result\<close>, the classification is
  ProtocolError.
\<close>

theorem no_truthy_result_is_protocol_error:
  "200 \<le> status_code r \<Longrightarrow> status_code r < 300 \<Longrightarrow>
   \<not> (\<exists>kvs v. decode_body r = JObj kvs \<and> map_of kvs ''result'' = Some v \<and> truthy v) \<Longrightarrow>
   classify r = ProtocolError (status_code r) (decode_body r)"
  by (simp add: classify_def Let_def is_success_iff)

text \<open>
  The theorem at five answers with status 200: a bare array, a scalar, an object without
  \<^verbatim>\<open>result\<close>, and the results \<^verbatim>\<open>false\<close> and \<^verbatim>\<open>0\<close>.
\<close>

theorem no_truthy_result_is_protocol_error_witness:
  "classify \<lparr>status_code = 200, r_text = ''[1]'', r_json = Inr (JArr [JInt 1])\<rparr> =
     ProtocolError 200 (JArr [JInt 1]) \<and>
   classify \<lparr>status_code = 200, r_text = ''7'', r_json = Inr (JInt 7)\<rparr> =
     ProtocolError 200 (JInt 7) \<and>
   classify \<lparr>status_code = 200, r_text = ''{\"error\": \"no\"}'',
             r_json = Inr (JObj [(''error'', JStr ''no'')])\<rparr> =
     ProtocolError 200 (JObj [(''error'', JStr ''no'')]) \<and>
   classify \<lparr>status_code = 200, r_text = ''{\"result\": false}'',
             r_json = Inr (JObj [(''result'', JBool False)])\<rparr> =
     ProtocolError 200 (JObj [(''result'', JBool False)]) \<and>
   classify \<lparr>status_code = 200, r_text = ''{\"result\": 0}'',
             r_json = Inr (JObj [(''result'', JInt 0)])\<rparr> =
     ProtocolError 200 (JObj [(''result'', JInt 0)])"
  using no_truthy_result_is_protocol_error
          [of "\<lparr>status_code = 200, r_text = ''[1]'', r_json = Inr (JArr [JInt 1])\<rparr>"]
        no_truthy_result_is_protocol_error
          [of "\<lparr>status_code = 200, r_text = ''7'', r_json = Inr (JInt 7)\<rparr>"]
        no_truthy_result_is_protocol_error
          [of "\<lparr>status_code = 200, r_text = ''{\"error\": \"no\"}'',
                r_json = Inr (JObj [(''error'', JStr ''no'')])\<rparr>"]
        no_truthy_result_is_protocol_error
          [of "\<lparr>status_code = 200, r_text = ''{\"result\": false}'',
                r_json = Inr (JObj [(''result'', JBool False)])\<rparr>"]
        no_truthy_result_is_protocol_error
          [of "\<lparr>status_code = 200, r_text = ''{\"result\": 0}'',
                r_json = Inr (JObj [(''result'', JInt 0)])\<rparr>"]
  by (simp add: decode_body_def)

text \<open>
  Claim C7. When \<^verbatim>\<open>r.json()\<close> raises, the response is classified ProtocolError and
  the body kept is the object with the raw text and the status code; run through
  \<^verbatim>\<open>call_mcp_tool\<close>, that outcome is returned and no exception reaches the caller.
\<close>

theorem undecodable_body_is_protocol_error:
  "r_json r = Inl x \<Longrightarrow>
   classify r =
     ProtocolError (status_code r)
       (JObj [(''raw_text'', JStr (r_text r)), (''status_code'', JInt (status_code r))]) \<and>
   (post e (default_url sb) (headers sb) (call_payload (timestamp_now e) tool_name args) 60 = Returns r \<longrightarrow>
      fst (call_mcp_tool sb e tool_name args s) =
        Inr (ProtocolError (status_code r)
          (JObj [(''raw_text'', JStr (r_text r)), (''status_code'', JInt (status_code r))])))"
  by (simp add: call_mcp_tool_Returns classify_def Let_def is_success_iff decode_body_def)

text \<open>The theorem at a 200 answer with an HTML body.\<close>

theorem undecodable_body_is_protocol_error_witness:
  "classify \<lparr>status_code = 200, r_text = ''<html>ok</html>'', r_json = Inl JSONDecodeError\<rparr> =
     ProtocolError 200 (JObj [(''raw_text'', JStr ''<html>ok</html>''), (''status_code'', JInt 200)]) \<and>
   fst (call_mcp_tool sample_sidebar
          (sample_env (reply 200 ''<html>ok</html>'' (Inl JSONDecodeError)) 1700000000)
          (JStr ''aiChat'') (JObj [(''prompt'', JStr ''hi'')]) fresh_session) =
     Inr (ProtocolError 200
            (JObj [(''raw_text'', JStr ''<html>ok</html>''), (''status_code'', JInt 200)]))"
  using undecodable_body_is_protocol_error
          [of "\<lparr>status_code = 200, r_text = ''<html>ok</html>'', r_json = Inl JSONDecodeError\<rparr>"
              JSONDecodeError
              "sample_env (reply 200 ''<html>ok</html>'' (Inl JSONDecodeError)) 1700000000"
              sample_sidebar "JStr ''aiChat''" "JObj [(''prompt'', JStr ''hi'')]" fresh_session]
  by (simp add: sample_env_def reply_def)

lemma fetch_tools_unchanged:
  "fetch_tools (post e (default_url sb) (headers sb) list_payload 20) = Inl x \<Longrightarrow>
   tools (snd (tools_list_button sb e s)) = tools s"
  by (simp add: tools_list_button_def Let_def)

lemma fetch_tools_stored:
  "fetch_tools (post e (default_url sb) (headers sb) list_payload 20) = Inr ts \<Longrightarrow>
   tools (snd (tools_list_button sb e s)) = ts"
  by (simp add: tools_list_button_def Let_def split: sum.splits)

lemma py_get_not_dict: "\<not> isinstance_dict j \<Longrightarrow> py_get j k d = Inl AttributeError"
  by (cases j) simp_all

section \<open>Refreshing the tool catalog\<close>

text \<open>
  Claim C3, as amended. A refresh leaves the cached catalog unchanged when the transport
  raises, when the status is from 400 to 599, when the body does not decode, when the
  decoded body is not an object, and when its \<^verbatim>\<open>result\<close> is present but not an
  object. A response outside 400 to 599 whose body is an object without \<^verbatim>\<open>result\<close>,
  or whose \<^verbatim>\<open>result\<close> object has no \<^verbatim>\<open>tools\<close>, replaces the catalog by the empty list.
\<close>

theorem failed_refresh_catalog:
  "((post e (default_url sb) (headers sb) list_payload 20 = Raises x \<or>
     post e (default_url sb) (headers sb) list_payload 20 = Returns r \<and>
       (400 \<le> status_code r \<and> status_code r < 600 \<or>
        r_json r = Inl x \<or>
        r_json r = Inr j \<and> \<not> isinstance_dict j \<or>
        r_json r = Inr (JObj kvs) \<and> map_of kvs ''result'' = Some v \<and> \<not> isinstance_dict v))
    \<longrightarrow> tools (snd (tools_list_button sb e s)) = tools s) \<and>
   (post e (default_url sb) (headers sb) list_payload 20 = Returns r \<and>
      \<not> (400 \<le> status_code r \<and> status_code r < 600) \<and>
      r_json r = Inr (JObj kvs) \<and>
      (map_of kvs ''result'' = None \<or>
       map_of kvs ''result'' = Some (JObj res) \<and> map_of res ''tools'' = None)
    \<longrightarrow> tools (snd (tools_list_button sb e s)) = JArr [])"
proof (intro conjI impI)
  assume "post e (default_url sb) (headers sb) list_payload 20 = Raises x \<or>
     post e (default_url sb) (headers sb) list_payload 20 = Returns r \<and>
       (400 \<le> status_code r \<and> status_code r < 600 \<or>
        r_json r = Inl x \<or>
        r_json r = Inr j \<and> \<not> isinstance_dict j \<or>
        r_json r = Inr (JObj kvs) \<and> map_of kvs ''result'' = Some v \<and> \<not> isinstance_dict v)"
  then have "\<exists>y. fetch_tools (post e (default_url sb) (headers sb) list_payload 20) = Inl y"
    by (auto simp: fetch_tools_def raise_for_status_def py_get_not_dict)
  then show "tools (snd (tools_list_button sb e s)) = tools s"
    by (auto simp: fetch_tools_unchanged)
next
  assume "post e (default_url sb) (headers sb) list_payload 20 = Returns r \<and>
      \<not> (400 \<le> status_code r \<and> status_code r < 600) \<and>
      r_json r = Inr (JObj kvs) \<and>
      (map_of kvs ''result'' = None \<or>
       map_of kvs ''result'' = Some (JObj res) \<and> map_of res ''tools'' = None)"
  then have "fetch_tools (post e (default_url sb) (headers sb) list_payload 20) = Inr (JArr [])"
    by (auto simp: fetch_tools_def raise_for_status_def)
  then show "tools (snd (tools_list_button sb e s)) = JArr []"
    by (rule fetch_tools_stored)
qed

text \<open>
  The theorem on a session holding three tools: a refused connection, a 500 answer and a
  200 answer that is not JSON keep the three tools; a 200 answer carrying a JSON-RPC
  error object empties the catalog.
\<close>

theorem failed_refresh_catalog_witness:
  "tools (snd (tools_list_button sample_sidebar (sample_env refused 0) sample_session)) =
     sample_catalog \<and>
   tools (snd (tools_list_button sample_sidebar
     (sample_env (reply 500 rpc_error_text (Inr rpc_error_body)) 0) sample_session)) =
     sample_catalog \<and>
   tools (snd (tools_list_button sample_sidebar
     (sample_env (reply 200 ''<html>ok</html>'' (Inl JSONDecodeError)) 0) sample_session)) =
     sample_catalog \<and>
   tools (snd (tools_list_button sample_sidebar
     (sample_env (reply 200 rpc_error_text (Inr rpc_error_body)) 0) sample_session)) = JArr []"
  using failed_refresh_catalog
          [of "sample_env refused 0" sample_sidebar "RequestException ''Connection refused''"
              _ _ _ _ sample_session]
        failed_refresh_catalog
          [of "sample_env (reply 500 rpc_error_text (Inr rpc_error_body)) 0" sample_sidebar _
              "\<lparr>status_code = 500, r_text = rpc_error_text, r_json = Inr rpc_error_body\<rparr>"
              _ _ _ sample_session]
        failed_refresh_catalog
          [of "sample_env (reply 200 ''<html>ok</html>'' (Inl JSONDecodeError)) 0" sample_sidebar
              JSONDecodeError
              "\<lparr>status_code = 200, r_text = ''<html>ok</html>'', r_json = Inl JSONDecodeError\<rparr>"
              _ _ _ sample_session]
        failed_refresh_catalog
          [of "sample_env (reply 200 rpc_error_text (Inr rpc_error_body)) 0" sample_sidebar _
              "\<lparr>status_code = 200, r_text = rpc_error_text, r_json = Inr rpc_error_body\<rparr>"
              _ "[(''jsonrpc'', JStr ''2.0''), (''id'', JInt 1),
                  (''error'', JObj [(''code'', JInt (- 32601)), (''message'', JStr ''Method not found'')])]"
              _ sample_session]
  by (simp add: sample_env_def reply_def refused_def sample_session_def rpc_error_body_def)

text \<open>
  Claim C3 as stated fails: the server is reachable and answers 200 with a JSON-RPC error
  object, which \<^verbatim>\<open>call_mcp_tool\<close> would class as ProtocolError; the refresh replaces
  the three cached tools by the empty list.
\<close>

theorem rpc_error_clears_catalog:
  "classify \<lparr>status_code = 200, r_text = rpc_error_text, r_json = Inr rpc_error_body\<rparr> =
     ProtocolError 200 rpc_error_body \<and>
   tools sample_session = sample_catalog \<and>
   tools (snd (tools_list_button sample_sidebar
     (sample_env (reply 200 rpc_error_text (Inr rpc_error_body)) 0) sample_session)) = JArr [] \<and>
   sample_catalog \<noteq> JArr []"
  by (simp add: sample_catalog_def classify_def decode_body_def is_success_def ok_def raise_for_status_def
        rpc_error_body_def sample_session_def tools_list_button_def fetch_tools_def
        sample_env_def reply_def Let_def)

lemma dict_set_fresh: "k \<notin> fst ` set kvs \<Longrightarrow> dict_set kvs k v = kvs @ [(k, v)]"
  by (induction kvs) auto

lemma placeholder_of_dict:
  "py_get (JObj kvs) ''type'' JNull = Inr t \<Longrightarrow> placeholder t = spec_placeholder (JObj kvs)"
  by (auto simp: placeholder_def spec_placeholder_def split: option.splits)

lemma synth_loop_dicts:
  "list_all (\<lambda>(k, v). isinstance_dict v) ps \<Longrightarrow> distinct (map fst ps) \<Longrightarrow>
   fst ` set acc \<inter> fst ` set ps = {} \<Longrightarrow>
   synth_loop ps acc = Inr (acc @ map (\<lambda>(k, v). (k, spec_placeholder v)) ps)"
proof (induction ps arbitrary: acc)
  case Nil
  then show ?case by simp
next
  case (Cons p ps)
  obtain k v where p: "p = (k, v)"
    by (cases p)
  from Cons.prems p obtain kvs where v: "v = JObj kvs"
    by (cases v) simp_all
  from Cons.prems p have fresh: "k \<notin> fst ` set acc"
    by auto
  have step: "dict_set acc k (placeholder (case map_of kvs ''type'' of Some t \<Rightarrow> t | None \<Rightarrow> JNull)) =
      acc @ [(k, spec_placeholder v)]"
    using placeholder_of_dict [of kvs] by (simp add: dict_set_fresh [OF fresh] v)
  have "fst ` set (acc @ [(k, spec_placeholder v)]) \<inter> fst ` set ps = {}"
    using Cons.prems p by auto
  moreover have "list_all (\<lambda>(k, v). isinstance_dict v) ps" and "distinct (map fst ps)"
    using Cons.prems by simp_all
  ultimately have "synth_loop ps (acc @ [(k, spec_placeholder v)]) =
      Inr ((acc @ [(k, spec_placeholder v)]) @ map (\<lambda>(k, v). (k, spec_placeholder v)) ps)"
    by (rule Cons.IH [rotated 2])
  then show ?case
    using step by (simp add: p v)
qed

lemma synth_loop_rejects:
  "\<not> list_all (\<lambda>(k, v). isinstance_dict v) ps \<Longrightarrow> synth_loop ps acc = Inl AttributeError"
proof (induction ps arbitrary: acc)
  case Nil
  then show ?case by simp
next
  case (Cons p ps)
  obtain k v where p: "p = (k, v)"
    by (cases p)
  show ?case
  proof (cases "isinstance_dict v")
    case False
    then show ?thesis
      by (simp add: p py_get_not_dict)
  next
    case True
    then obtain kvs where v: "v = JObj kvs"
      by (cases v) simp_all
    from Cons.prems True have "\<not> list_all (\<lambda>(k, v). isinstance_dict v) ps"
      by (simp add: p)
    then show ?thesis
      by (simp add: p v Cons.IH)
  qed
qed

lemma section_session:
  "snd (tools_call_section sb e selected args_text s) = s \<or>
   snd (tools_call_section sb e selected args_text s) =
     snd (dispatch_button sb e selected args_text s)"
  by (simp add: tools_call_section_def split: sum.splits option.splits prod.splits)

lemma section_pressed:
  "fst (tools_call_section sb e selected args_text s) = Inr (Some out) \<Longrightarrow>
   tools_call_section sb e selected args_text s =
     (Inr (Some out), snd (dispatch_button sb e selected args_text s)) \<and>
   fst (dispatch_button sb e selected args_text s) = out"
  by (auto simp: tools_call_section_def split: if_splits sum.splits option.splits prod.splits)

section \<open>Default arguments\<close>

text \<open>
  Claim C4, as amended. For every input schema that is an object, \<^verbatim>\<open>synthesize\<close>
  returns the empty mapping when the schema has no \<^verbatim>\<open>properties\<close>, and when
  \<^verbatim>\<open>properties\<close> is an object whose values are all objects it returns the mapping
  that lists the properties in declaration order, each with the placeholder of its
  declared type: the empty string for \<^verbatim>\<open>"string"\<close>, 0 for \<^verbatim>\<open>"number"\<close>, false for
  \<^verbatim>\<open>"boolean"\<close>, the empty list for \<^verbatim>\<open>"array"\<close>, and null for any other or absent type.
  Every schema in which the definition of some property is not an object is rejected
  with \<^verbatim>\<open>AttributeError\<close>.
\<close>

theorem synthesize_placeholders:
  "(map_of skvs ''properties'' = None \<longrightarrow> synthesize (JObj skvs) = Inr (JObj [])) \<and>
   (map_of skvs ''properties'' = Some (JObj props) \<and> distinct (map fst props) \<and>
    list_all (\<lambda>(k, v). isinstance_dict v) props \<longrightarrow>
      synthesize (JObj skvs) = Inr (JObj (map (\<lambda>(k, v). (k, spec_placeholder v)) props))) \<and>
   (map_of skvs ''properties'' = Some (JObj props) \<and>
    \<not> list_all (\<lambda>(k, v). isinstance_dict v) props \<longrightarrow>
      synthesize (JObj skvs) = Inl AttributeError)"
  using synth_loop_dicts [of props "[]"] synth_loop_rejects [of props "[]"]
  by (simp add: synthesize_def)

text \<open>
  The theorem at the example of the specification, at a schema without
  \<^verbatim>\<open>properties\<close>, and at a schema whose second property is defined by a string.
\<close>

theorem synthesize_placeholders_witness:
  "synthesize spec_example_schema =
     Inr (JObj [(''a'', JStr []), (''b'', JInt 0), (''c'', JBool False), (''d'', JArr []),
                (''e'', JNull)]) \<and>
   synthesize (JObj [(''type'', JStr ''object'')]) = Inr (JObj []) \<and>
   synthesize (JObj [(''properties'',
       JObj [(''a'', JObj [(''type'', JStr ''string'')]), (''b'', JStr ''number'')])]) =
     Inl AttributeError"
  using synthesize_placeholders
          [of "[(''properties'',
                  JObj [(''a'', JObj [(''type'', JStr ''string'')]),
                        (''b'', JObj [(''type'', JStr ''number'')]),
                        (''c'', JObj [(''type'', JStr ''boolean'')]),
                        (''d'', JObj [(''type'', JStr ''array'')]),
                        (''e'', JObj [])])]"
              "[(''a'', JObj [(''type'', JStr ''string'')]),
                (''b'', JObj [(''type'', JStr ''number'')]),
                (''c'', JObj [(''type'', JStr ''boolean'')]),
                (''d'', JObj [(''type'', JStr ''array'')]),
                (''e'', JObj [])]"]
        synthesize_placeholders [of "[(''type'', JStr ''object'')]"]
        synthesize_placeholders
          [of "[(''properties'',
                  JObj [(''a'', JObj [(''type'', JStr ''string'')]), (''b'', JStr ''number'')])]"
              "[(''a'', JObj [(''type'', JStr ''string'')]), (''b'', JStr ''number'')]"]
  by (simp add: spec_example_schema_def spec_placeholder_def)

text \<open>
  Claim C4 as stated fails: a schema is rejected when the definition of a property is not
  an object. Here the property \<^verbatim>\<open>a\<close> has the boolean schema \<^verbatim>\<open>true\<close>, and
  \<^verbatim>\<open>v.get("type")\<close> raises.
\<close>

theorem boolean_property_schema_rejected:
  "synthesize (JObj [(''properties'', JObj [(''a'', JBool True)])]) = Inl AttributeError \<and>
   default_args (JObj [(''name'', JStr ''t''),
      (''inputSchema'', JObj [(''properties'', JObj [(''a'', JBool True)])])]) = Inl AttributeError"
  by (simp add: synthesize_def default_args_def)

section \<open>Malformed argument text\<close>

text \<open>
  Claim C6, as amended. For every argument text that is not blank and that
  \<^verbatim>\<open>json.loads\<close> rejects, the dispatch button reports the error and returns the
  session as it was: nothing is handed to the transport, and the history and the catalog
  are unchanged; so is the session after the whole section of the page. A blank text
  (empty, or Unicode white space only) is not parsed: the button dispatches the call with
  the empty object as its arguments, on every session on which the page shows the
  button.
\<close>

theorem malformed_arguments_not_dispatched:
  "(strip_nonempty args_text \<and> json_loads e args_text = Inl x \<longrightarrow>
      dispatch_button sb e selected args_text s = (MalformedInput x, s) \<and>
      snd (tools_call_section sb e selected args_text s) = s) \<and>
   (\<not> strip_nonempty args_text \<longrightarrow>
      posted (snd (dispatch_button sb e selected args_text s)) =
        posted s @ [(default_url sb, headers sb,
                     call_payload (timestamp_now e) selected (JObj []), 60)]) \<and>
   (\<not> strip_nonempty args_text \<and>
    fst (tools_call_section sb e selected args_text s) = Inr (Some out) \<longrightarrow>
      posted (snd (tools_call_section sb e selected args_text s)) =
        posted s @ [(default_url sb, headers sb,
                     call_payload (timestamp_now e) selected (JObj []), 60)])"
proof -
  have malformed: "dispatch_button sb e selected args_text s = (MalformedInput x, s)"
    if "strip_nonempty args_text \<and> json_loads e args_text = Inl x"
    using that by (simp add: dispatch_button_def)
  have blank: "posted (snd (dispatch_button sb e selected args_text s)) =
        posted s @ [(default_url sb, headers sb,
                     call_payload (timestamp_now e) selected (JObj []), 60)]"
    if "\<not> strip_nonempty args_text"
  proof -
    have "snd (dispatch_button sb e selected args_text s) =
        snd (call_mcp_tool sb e selected (JObj []) s)"
      using that by (simp add: dispatch_button_def split: prod.splits sum.splits)
    then show ?thesis
      by (simp add: posted_call_mcp_tool)
  qed
  have unchanged: "snd (tools_call_section sb e selected args_text s) = s"
    if "strip_nonempty args_text \<and> json_loads e args_text = Inl x"
    using section_session [of sb e selected args_text s] malformed [OF that] by auto
  have pressed: "posted (snd (tools_call_section sb e selected args_text s)) =
        posted s @ [(default_url sb, headers sb,
                     call_payload (timestamp_now e) selected (JObj []), 60)]"
    if "\<not> strip_nonempty args_text \<and>
        fst (tools_call_section sb e selected args_text s) = Inr (Some out)"
    using section_pressed [of sb e selected args_text s out] blank that by simp
  show ?thesis
    using malformed unchanged blank pressed by blast
qed

text \<open>
  The theorem on the session holding three tools, \<^verbatim>\<open>echo\<close> selected: at a text with
  an unclosed brace, and at a text of a space followed by an ideographic space (U+3000).
\<close>

theorem malformed_arguments_not_dispatched_witness:
  "tools_call_section sample_sidebar (sample_env refused 1700000000) (JStr ''echo'')
       (codepoints ''{\"msg\": '') sample_session =
     (Inr (Some (MalformedInput JSONDecodeError)), sample_session) \<and>
   fst (tools_call_section sample_sidebar (sample_env refused 1700000000) (JStr ''echo'')
       [0x20, 0x3000] sample_session) =
     Inr (Some (TransportFailure (RequestException ''Connection refused''))) \<and>
   posted (snd (tools_call_section sample_sidebar (sample_env refused 1700000000) (JStr ''echo'')
       [0x20, 0x3000] sample_session)) =
     [(''http://localhost:8787/mcp'',
       [(''Content-Type'', ''application/json''), (''Authorization'', ''Bearer s3cret'')],
       call_payload 1700000000 (JStr ''echo'') (JObj []), 60)]"
proof -
  have bad: "strip_nonempty (codepoints ''{\"msg\": '') \<and>
      json_loads (sample_env refused 1700000000) (codepoints ''{\"msg\": '') = Inl JSONDecodeError"
    by (simp add: strip_nonempty_def is_space_def codepoints_def sample_env_def sample_loads_def)
  have shown: "fst (tools_call_section sample_sidebar (sample_env refused 1700000000)
      (JStr ''echo'') (codepoints ''{\"msg\": '') sample_session) =
      Inr (Some (MalformedInput JSONDecodeError))"
    using bad
    by (simp add: tools_call_section_def tool_names_def find_tool_def sample_session_def
          sample_catalog_def echo_tool_def default_args_def synthesize_def dispatch_button_def)
  have blank: "\<not> strip_nonempty [0x20, 0x3000]"
    by (simp add: strip_nonempty_def is_space_def)
  have pressed: "fst (tools_call_section sample_sidebar (sample_env refused 1700000000)
      (JStr ''echo'') [0x20, 0x3000] sample_session) =
      Inr (Some (TransportFailure (RequestException ''Connection refused'')))"
    using blank
    by (simp add: tools_call_section_def tool_names_def find_tool_def sample_session_def
          sample_catalog_def echo_tool_def default_args_def synthesize_def dispatch_button_def
          call_mcp_tool_def call_mcp_tool_try_def sample_env_def refused_def Let_def)
  from malformed_arguments_not_dispatched
         [of "codepoints ''{\"msg\": ''" "sample_env refused 1700000000" JSONDecodeError
             sample_sidebar "JStr ''echo''" sample_session]
       bad shown
  have first: "tools_call_section sample_sidebar (sample_env refused 1700000000) (JStr ''echo'')
       (codepoints ''{\"msg\": '') sample_session =
     (Inr (Some (MalformedInput JSONDecodeError)), sample_session)"
    by (simp add: prod_eq_iff)
  from malformed_arguments_not_dispatched
         [of "[0x20, 0x3000]" "sample_env refused 1700000000" _
             sample_sidebar "JStr ''echo''" sample_session
             "TransportFailure (RequestException ''Connection refused'')"]
       blank pressed
  have second: "posted (snd (tools_call_section sample_sidebar (sample_env refused 1700000000)
       (JStr ''echo'') [0x20, 0x3000] sample_session)) =
     [(''http://localhost:8787/mcp'',
       [(''Content-Type'', ''application/json''), (''Authorization'', ''Bearer s3cret'')],
       call_payload 1700000000 (JStr ''echo'') (JObj []), 60)]"
    by (simp add: sample_env_def sample_session_def sample_sidebar_def headers_def)
  from first pressed second show ?thesis
    by simp
qed

text \<open>
  Claim C6 as stated fails: the empty text is not JSON (\<^verbatim>\<open>json.loads\<close> rejects it).
  On the session holding three tools, with \<^verbatim>\<open>echo\<close> selected and the editor emptied,
  the button sends a \<^verbatim>\<open>tools/call\<close> request with the arguments \<^verbatim>\<open>{}\<close> and, the
  server answering, a history entry is added.
\<close>

theorem empty_arguments_dispatched:
  "json_loads (sample_env (reply 200 ''{\"result\": \"hi\"}'' (Inr (JObj [(''result'', JStr ''hi'')])))
       1700000000) [] = Inl JSONDecodeError \<and>
   fst (tools_call_section sample_sidebar
       (sample_env (reply 200 ''{\"result\": \"hi\"}'' (Inr (JObj [(''result'', JStr ''hi'')])))
          1700000000)
       (JStr ''echo'') [] sample_session) = Inr (Some (Success (JObj [(''result'', JStr ''hi'')]))) \<and>
   posted (snd (tools_call_section sample_sidebar
       (sample_env (reply 200 ''{\"result\": \"hi\"}'' (Inr (JObj [(''result'', JStr ''hi'')])))
          1700000000)
       (JStr ''echo'') [] sample_session)) =
     [(''http://localhost:8787/mcp'',
       [(''Content-Type'', ''application/json''), (''Authorization'', ''Bearer s3cret'')],
       call_payload 1700000000 (JStr ''echo'') (JObj []), 60)] \<and>
   length (history (snd (tools_call_section sample_sidebar
       (sample_env (reply 200 ''{\"result\": \"hi\"}'' (Inr (JObj [(''result'', JStr ''hi'')])))
          1700000000)
       (JStr ''echo'') [] sample_session))) = 1"
  by (simp add: tools_call_section_def tool_names_def find_tool_def sample_session_def
        sample_catalog_def echo_tool_def default_args_def synthesize_def dispatch_button_def
        strip_nonempty_def call_mcp_tool_def call_mcp_tool_try_def classify_def decode_body_def
        is_success_def ok_def raise_for_status_def codepoints_def
        sample_env_def sample_loads_def reply_def sample_sidebar_def headers_def Let_def)

section \<open>Request envelopes on the wire\<close>

text \<open>
  Claim C8. Every \<^verbatim>\<open>tools/call\<close> request has \<^verbatim>\<open>jsonrpc\<close> "2.0", the method
  \<^verbatim>\<open>tools/call\<close> and the params \<^verbatim>\<open>{name, arguments}\<close> with the tool name and the
  arguments as given; the \<^verbatim>\<open>tools/list\<close> request has \<^verbatim>\<open>jsonrpc\<close> "2.0", the method
  \<^verbatim>\<open>tools/list\<close> and no params. These are the bodies handed to the transport by
  \<^verbatim>\<open>call_mcp_tool\<close> and by the \<^verbatim>\<open>tools/list\<close> button.
\<close>

theorem envelopes:
  "field (call_payload ts tool_name args) ''jsonrpc'' = Some (JStr ''2.0'') \<and>
   field (call_payload ts tool_name args) ''method'' = Some (JStr ''tools/call'') \<and>
   field (call_payload ts tool_name args) ''params'' =
     Some (JObj [(''name'', tool_name), (''arguments'', args)]) \<and>
   field list_payload ''jsonrpc'' = Some (JStr ''2.0'') \<and>
   field list_payload ''method'' = Some (JStr ''tools/list'') \<and>
   field list_payload ''params'' = None \<and>
   posted (snd (call_mcp_tool sb e tool_name args s)) =
     posted s @ [(default_url sb, headers sb, call_payload (timestamp_now e) tool_name args, 60)] \<and>
   posted (snd (tools_list_button sb e s)) =
     posted s @ [(default_url sb, headers sb, list_payload, 20)]"
  by (simp add: posted_call_mcp_tool posted_tools_list_button call_payload_def list_payload_def)

text \<open>The theorem at a call of \<^verbatim>\<open>echo\<close> with the arguments \<^verbatim>\<open>{"msg": "hi"}\<close>.\<close>

theorem envelopes_witness:
  "field (call_payload 1700000000 (JStr ''echo'') (JObj [(''msg'', JStr ''hi'')])) ''params'' =
     Some (JObj [(''name'', JStr ''echo''), (''arguments'', JObj [(''msg'', JStr ''hi'')])]) \<and>
   field list_payload ''params'' = None \<and>
   posted (snd (call_mcp_tool sample_sidebar (sample_env refused 1700000000) (JStr ''echo'')
       (JObj [(''msg'', JStr ''hi'')]) fresh_session)) =
     [(''http://localhost:8787/mcp'',
       [(''Content-Type'', ''application/json''), (''Authorization'', ''Bearer s3cret'')],
       call_payload 1700000000 (JStr ''echo'') (JObj [(''msg'', JStr ''hi'')]), 60)]"
  using envelopes [of 1700000000 "JStr ''echo''" "JObj [(''msg'', JStr ''hi'')]"
          sample_sidebar "sample_env refused 1700000000" fresh_session]
  by (simp add: sample_env_def fresh_session_def sample_sidebar_def headers_def)

lemma posted_ids_run: "posted_ids (run sb ps s) = posted_ids s @ map press_id ps"
  by (induction sb ps s rule: run.induct)
     (simp_all add: posted_ids_def posted_call_mcp_tool posted_tools_list_button
        call_payload_def list_payload_def)

section \<open>Request ids\<close>

text \<open>
  Claim C9, as amended. In a session, taken as any sequence of dispatching button
  presses from the fresh state, the requests sent carry, in order, the id of each press:
  the constant 1 for a \<^verbatim>\<open>tools/list\<close>, and for a \<^verbatim>\<open>tools/call\<close> the value that
  \<^verbatim>\<open>datetime.now().timestamp()\<close> returned when its payload was built. So any two
  \<^verbatim>\<open>tools/list\<close> dispatches carry the same id, and two \<^verbatim>\<open>tools/call\<close> dispatches
  carry distinct ids whenever the clock readings of the two differ.
\<close>

theorem request_ids:
  "posted_ids (run sb ps fresh_session) = map press_id ps \<and>
   (i < length ps \<and> j < length ps \<and>
    ps ! i = (e, PressCall tool_name args) \<and> ps ! j = (e', PressCall tool_name' args') \<and>
    timestamp_now e \<noteq> timestamp_now e' \<longrightarrow>
      posted_ids (run sb ps fresh_session) ! i \<noteq> posted_ids (run sb ps fresh_session) ! j) \<and>
   (i < length ps \<and> j < length ps \<and> ps ! i = (e, PressList) \<and> ps ! j = (e', PressList) \<longrightarrow>
      posted_ids (run sb ps fresh_session) ! i = Some (JInt 1) \<and>
      posted_ids (run sb ps fresh_session) ! j = Some (JInt 1))"
proof -
  have ids: "posted_ids (run sb ps fresh_session) = map press_id ps"
    by (simp add: posted_ids_run) (simp add: posted_ids_def fresh_session_def)
  show ?thesis
    by (simp add: ids)
qed

text \<open>
  The theorem at a session of four presses: a call of \<^verbatim>\<open>echo\<close>, a \<^verbatim>\<open>tools/list\<close>,
  a second call of \<^verbatim>\<open>echo\<close> one second later, and a second \<^verbatim>\<open>tools/list\<close>.
\<close>

theorem request_ids_witness:
  "posted_ids (run sample_sidebar
      [(sample_env refused 1700000000, PressCall (JStr ''echo'') (JObj [])),
       (sample_env refused 1700000000, PressList),
       (sample_env refused 1700000001, PressCall (JStr ''echo'') (JObj [])),
       (sample_env refused 1700000001, PressList)] fresh_session) =
     [Some (JFloat (FloatFinite 1700000000)), Some (JInt 1),
      Some (JFloat (FloatFinite 1700000001)), Some (JInt 1)] \<and>
   posted_ids (run sample_sidebar
      [(sample_env refused 1700000000, PressCall (JStr ''echo'') (JObj [])),
       (sample_env refused 1700000000, PressList),
       (sample_env refused 1700000001, PressCall (JStr ''echo'') (JObj [])),
       (sample_env refused 1700000001, PressList)] fresh_session) ! 0 \<noteq>
   posted_ids (run sample_sidebar
      [(sample_env refused 1700000000, PressCall (JStr ''echo'') (JObj [])),
       (sample_env refused 1700000000, PressList),
       (sample_env refused 1700000001, PressCall (JStr ''echo'') (JObj [])),
       (sample_env refused 1700000001, PressList)] fresh_session) ! 2"
proof -
  have clocks: "timestamp_now (sample_env refused 1700000000) \<noteq>
      timestamp_now (sample_env refused 1700000001)"
    by (simp add: sample_env_def)
  from request_ids
         [of sample_sidebar
             "[(sample_env refused 1700000000, PressCall (JStr ''echo'') (JObj [])),
               (sample_env refused 1700000000, PressList),
               (sample_env refused 1700000001, PressCall (JStr ''echo'') (JObj [])),
               (sample_env refused 1700000001, PressList)]"
             0 2 "sample_env refused 1700000000" "JStr ''echo''" "JObj []"
             "sample_env refused 1700000001" "JStr ''echo''" "JObj []"]
       clocks
  show ?thesis
    by (simp add: sample_env_def)
qed

text \<open>
  Claim C9 as stated fails. Two presses of the \<^verbatim>\<open>tools/list\<close> button in one session,
  a second apart, send two requests with the same id 1. And \<^verbatim>\<open>datetime.now()\<close> reads
  the wall clock, which can be set back between two calls: two \<^verbatim>\<open>tools/call\<close>
  dispatches at which it shows the same reading send the same id.
\<close>

theorem request_ids_repeat:
  "posted_ids (snd (tools_list_button sample_sidebar (sample_env refused 1700000001)
       (snd (tools_list_button sample_sidebar (sample_env refused 1700000000) fresh_session)))) =
     [Some (JInt 1), Some (JInt 1)] \<and>
   posted_ids (snd (call_mcp_tool sample_sidebar (sample_env refused 1700000000)
       (JStr ''echo'') (JObj [])
       (snd (call_mcp_tool sample_sidebar (sample_env refused 1700000000)
          (JStr ''echo'') (JObj []) fresh_session)))) =
     [Some (JFloat (FloatFinite 1700000000)), Some (JFloat (FloatFinite 1700000000))]"
  by (simp add: posted_ids_def tools_list_button_def fetch_tools_def call_mcp_tool_def
        call_mcp_tool_try_def call_payload_def sample_env_def refused_def
        fresh_session_def list_payload_def Let_def)

section \<open>No exception leaves \<^verbatim>\<open>call_mcp_tool\<close>\<close>

text \<open>
  Claim C10. For every tool name, arguments, endpoint and headers, and whatever the
  transport and \<^verbatim>\<open>r.json()\<close> do, \<^verbatim>\<open>call_mcp_tool\<close> returns normally: no exception
  reaches the caller. An exception raised by \<^verbatim>\<open>requests.post\<close> becomes the error
  report of the \<^verbatim>\<open>except\<close> branch, and an exception raised by \<^verbatim>\<open>r.json()\<close> becomes
  the error report that carries the fallback body.
\<close>

theorem call_mcp_tool_total:
  "(\<exists>out. fst (call_mcp_tool sb e tool_name args s) = Inr out) \<and>
   (post e (default_url sb) (headers sb) (call_payload (timestamp_now e) tool_name args) 60 = Raises x
      \<longrightarrow> fst (call_mcp_tool sb e tool_name args s) = Inr (TransportFailure x)) \<and>
   (post e (default_url sb) (headers sb) (call_payload (timestamp_now e) tool_name args) 60 = Returns r
      \<and> r_json r = Inl y
      \<longrightarrow> fst (call_mcp_tool sb e tool_name args s) =
            Inr (ProtocolError (status_code r)
                   (JObj [(''raw_text'', JStr (r_text r)), (''status_code'', JInt (status_code r))])))"
proof (intro conjI impI)
  show "\<exists>out. fst (call_mcp_tool sb e tool_name args s) = Inr out"
    by (cases "post e (default_url sb) (headers sb)
                 (call_payload (timestamp_now e) tool_name args) 60")
       (simp_all add: call_mcp_tool_Raises call_mcp_tool_Returns)
next
  assume "post e (default_url sb) (headers sb) (call_payload (timestamp_now e) tool_name args) 60
            = Raises x"
  then show "fst (call_mcp_tool sb e tool_name args s) = Inr (TransportFailure x)"
    by (simp add: call_mcp_tool_Raises)
next
  assume "post e (default_url sb) (headers sb) (call_payload (timestamp_now e) tool_name args) 60
            = Returns r \<and> r_json r = Inl y"
  then show "fst (call_mcp_tool sb e tool_name args s) =
            Inr (ProtocolError (status_code r)
                   (JObj [(''raw_text'', JStr (r_text r)), (''status_code'', JInt (status_code r))]))"
    by (simp add: call_mcp_tool_Returns classify_def Let_def is_success_iff decode_body_def)
qed

text \<open>The theorem at a refused connection and at a 502 answer with an HTML body.\<close>

theorem call_mcp_tool_total_witness:
  "fst (call_mcp_tool sample_sidebar (sample_env refused 1700000000) (JStr ''listCronTriggers'')
         (JObj []) fresh_session) =
     Inr (TransportFailure (RequestException ''Connection refused'')) \<and>
   fst (call_mcp_tool sample_sidebar
         (sample_env (reply 502 ''<html>Bad Gateway</html>'' (Inl JSONDecodeError)) 1700000000)
         (JStr ''listCronTriggers'') (JObj []) fresh_session) =
     Inr (ProtocolError 502
            (JObj [(''raw_text'', JStr ''<html>Bad Gateway</html>''), (''status_code'', JInt 502)]))"
  using call_mcp_tool_total
          [of sample_sidebar "sample_env refused 1700000000" "JStr ''listCronTriggers''" "JObj []"
              fresh_session "RequestException ''Connection refused''"]
        call_mcp_tool_total
          [of sample_sidebar
              "sample_env (reply 502 ''<html>Bad Gateway</html>'' (Inl JSONDecodeError)) 1700000000"
              "JStr ''listCronTriggers''" "JObj []" fresh_session _
              "\<lparr>status_code = 502, r_text = ''<html>Bad Gateway</html>'', r_json = Inl JSONDecodeError\<rparr>"
              JSONDecodeError]
  by (simp add: sample_env_def refused_def reply_def)

end
